theory Spec2Isabelle
  imports Complex_Main "HOL-Library.Multiset" "HOL-Library.Sublist"
begin

section \<open>Python values used by the notebook\<close>

text \<open>
  A Python \<open>str\<close> is a sequence of Unicode code points, and \<open>s[:n]\<close> counts code
  points, so a string is a list of code points here (not of bytes). The notebook's ASCII
  literals are written \<open>py ''...''\<close>, and \<open>nl\<close> is the line feed. The slice
  \<open>s[:n]\<close> with \<open>n \<ge> 0\<close> is \<open>take n s\<close>: it never raises, and returns \<open>s\<close>
  itself when \<open>s\<close> is shorter.
\<close>

type_synonym pystr = "nat list"

definition py :: "string \<Rightarrow> pystr" where
  "py cs = map of_char cs"

definition nl :: pystr where
  "nl = [10]"

text \<open>\<open>sep.join(parts)\<close>: the separator stands between the parts, not after them.\<close>

fun join :: "pystr \<Rightarrow> pystr list \<Rightarrow> pystr" where
  "join sep [] = []"
| "join sep [x] = x"
| "join sep (x # y # ys) = x @ sep @ join sep (y # ys)"

text \<open>
  The exceptions a cell can end with: one raised inside an external call (the HTTP
  request, the OpenAI client, scikit-learn), a \<open>KeyError\<close> for a dictionary key that is
  not there, an \<open>IndexError\<close> for \<open>[0]\<close> on an empty sequence. No cell has a
  \<open>try\<close>, so an exception ends the cell where it is raised.
\<close>

datatype 'e error = External 'e | KeyError pystr | IndexError

section \<open>Documents\<close>

text \<open>
  An article is the dictionary \<open>{"title": ..., "text": ...}\<close> that the fetch loop
  appends; the keys \<open>"embedding"\<close> and \<open>"summary"\<close> are absent (\<open>None\<close>) until the
  loops below store them. The field \<open>atext\<close> is the key \<open>"text"\<close>. The embedding
  vector is whatever the provider returns; its type is the parameter \<open>'v\<close>.
\<close>

record 'v article =
  title :: pystr
  atext :: pystr
  embedding :: "'v option"
  summary :: "pystr option"

subsection \<open>The fetch loop\<close>

text \<open>
  \<open>get_random_wikipedia_article_title\<close> is an HTTP request and an HTML parse: the
  parameter \<open>get\<close>, a step of the outside world \<open>'w\<close> that returns the pair
  \<open>(title, text)\<close> or raises. \<open>for _ in range(n): articles.append({...})\<close>; the
  notebook runs it with \<open>n = 23\<close> on \<open>articles = []\<close>.
\<close>

fun fetch_articles ::
  "('w \<Rightarrow> ('e + pystr \<times> pystr) \<times> 'w) \<Rightarrow> nat \<Rightarrow> 'w \<Rightarrow> 'v article list
    \<Rightarrow> 'e error option \<times> 'v article list \<times> 'w" where
  "fetch_articles get 0 w articles = (None, articles, w)"
| "fetch_articles get (Suc n) w articles =
     (case get w of
        (Inl e, w') \<Rightarrow> (Some (External e), articles, w')
      | (Inr (t, x), w') \<Rightarrow>
          fetch_articles get n w'
            (articles @ [\<lparr>title = t, atext = x, embedding = None, summary = None\<rparr>]))"

section \<open>The provider calls\<close>

text \<open>
  \<open>openai.Embedding.create(engine=..., input=[...])\<close> and
  \<open>openai.ChatCompletion.create(engine=..., messages=[...], temperature=...,
  max_tokens=...)\<close> are calls to an external service. Each is a parameter: a function
  from the service's state \<open>'p\<close> and the request to the reply (or the exception) and
  the next state. Of the reply the notebook reads \<open>response["data"][i]["embedding"]\<close>
  and \<open>completion['choices'][i]['message']["content"]\<close>, so a reply is the list of
  those embeddings, respectively of those contents.
\<close>

record embedding_request =
  emb_engine :: pystr
  emb_input :: "pystr list"

record message =
  role :: pystr
  content :: pystr

record chat_request =
  chat_engine :: pystr
  messages :: "message list"
  temperature :: rat
  max_tokens :: "nat option"

type_synonym ('p, 'e, 'v) embedding_api = "'p \<Rightarrow> embedding_request \<Rightarrow> ('e + 'v list) \<times> 'p"

type_synonym ('p, 'e) chat_api = "'p \<Rightarrow> chat_request \<Rightarrow> ('e + pystr list) \<times> 'p"


subsection \<open>The embedding loop\<close>

definition embedding_request_of :: "'v article \<Rightarrow> embedding_request" where
  "embedding_request_of a =
     \<lparr>emb_engine = py ''text-embedding-ada-002'', emb_input = [take 5555 (atext a)]\<rparr>"

text \<open>
  \<open>for article in articles: response = create(...); article["embedding"] =
  response["data"][0]["embedding"]\<close>. The articles are mutated in place, so the ones
  handled before an exception keep their new key; the result is the exception (if any),
  the list as the cell leaves it, and the provider's state.
\<close>

fun embed_articles ::
  "('p, 'e, 'v) embedding_api \<Rightarrow> 'p \<Rightarrow> 'v article list \<Rightarrow> 'e error option \<times> 'v article list \<times> 'p" where
  "embed_articles api p [] = (None, [], p)"
| "embed_articles api p (a # as) =
     (case api p (embedding_request_of a) of
        (Inl e, p') \<Rightarrow> (Some (External e), a # as, p')
      | (Inr [], p') \<Rightarrow> (Some IndexError, a # as, p')
      | (Inr (v # _), p') \<Rightarrow>
          (case embed_articles api p' as of
             (r, as', p'') \<Rightarrow> (r, a\<lparr>embedding := Some v\<rparr> # as', p'')))"

subsection \<open>The summarization loop\<close>

definition summary_system_prompt :: pystr where
  "summary_system_prompt =
     py ''You are an expert encyclopedia editor. '' @
     py ''Your task is to read an article from Wikipedia and write a short summary of it. '' @
     py ''Your response should always be a single paragraph of text with the article summary, '' @
     py ''and should never include any titles, headings or markup.''"

definition summary_user_prompt :: "'v article \<Rightarrow> pystr" where
  "summary_user_prompt a =
     py ''Read the following article and write a short summary of it.'' @
     nl @ nl @ py ''Title:'' @ nl @ title a @ nl @ py ''Article:'' @ nl @ take 9999 (atext a)"

definition summary_request_of :: "'v article \<Rightarrow> chat_request" where
  "summary_request_of a =
     \<lparr>chat_engine = py ''gpt-35-turbo-16k'',
      messages =
        [\<lparr>role = py ''system'', content = summary_system_prompt\<rparr>,
         \<lparr>role = py ''user'', content = summary_user_prompt a\<rparr>],
      temperature = 3 / 10,
      max_tokens = Some 250\<rparr>"

fun summarize_articles ::
  "('p, 'e) chat_api \<Rightarrow> 'p \<Rightarrow> 'v article list \<Rightarrow> 'e error option \<times> 'v article list \<times> 'p" where
  "summarize_articles api p [] = (None, [], p)"
| "summarize_articles api p (a # as) =
     (case api p (summary_request_of a) of
        (Inl e, p') \<Rightarrow> (Some (External e), a # as, p')
      | (Inr [], p') \<Rightarrow> (Some IndexError, a # as, p')
      | (Inr (c # _), p') \<Rightarrow>
          (case summarize_articles api p' as of
             (r, as', p'') \<Rightarrow> (r, a\<lparr>summary := Some c\<rparr> # as', p'')))"

section \<open>Clustering the embeddings\<close>

text \<open>
  \<open>KMeans(n_clusters=7, random_state=0, n_init=10).fit(embeddings)\<close> and
  \<open>kmeans.predict([v])[0]\<close> are scikit-learn's: the parameters \<open>fit\<close> (the fitted
  model, or the exception) and \<open>predict\<close> (the label of one vector under a fitted
  model). The notebook passes the constructor arguments below.
\<close>

record kmeans_params =
  n_clusters :: nat
  random_state :: "int option"
  n_init :: nat

definition notebook_kmeans :: kmeans_params where
  "notebook_kmeans = \<lparr>n_clusters = 7, random_state = Some 0, n_init = 10\<rparr>"

text \<open>\<open>[article["embedding"] for article in articles]\<close>: a \<open>KeyError\<close> at the first
  article that has no embedding.\<close>

fun embeddings_of :: "'v article list \<Rightarrow> 'e error + 'v list" where
  "embeddings_of [] = Inr []"
| "embeddings_of (a # as) =
     (case embedding a of
        None \<Rightarrow> Inl (KeyError (py ''embedding''))
      | Some v \<Rightarrow> (case embeddings_of as of Inl e \<Rightarrow> Inl e | Inr vs \<Rightarrow> Inr (v # vs)))"

text \<open>
  The test \<open>kmeans.predict([article["embedding"]])[0] == cluster\<close> of the printing
  loop. The loop runs only after \<open>embeddings_of\<close> has succeeded, so the key is there;
  the \<open>None\<close> branch is never taken in \<open>kmeans_cell\<close>.
\<close>

definition in_cluster :: "('v \<Rightarrow> nat) \<Rightarrow> nat \<Rightarrow> 'v article \<Rightarrow> bool" where
  "in_cluster predict cluster a =
     (case embedding a of Some v \<Rightarrow> predict v = cluster | None \<Rightarrow> False)"

text \<open>The groups the loop \<open>for cluster in range(K): for article in articles: if ...\<close>
  walks through: group \<open>cluster\<close> holds the articles labelled \<open>cluster\<close>, in list order.\<close>

definition cluster_groups :: "('v \<Rightarrow> nat) \<Rightarrow> nat \<Rightarrow> 'v article list \<Rightarrow> 'v article list list" where
  "cluster_groups predict K articles =
     map (\<lambda>cluster. filter (in_cluster predict cluster) articles) [0..<K]"

text \<open>\<open>str(n)\<close> for \<open>n \<ge> 0\<close>: the decimal digits.\<close>

fun str_nat :: "nat \<Rightarrow> pystr" where
  "str_nat n = (if n < 10 then [48 + n] else str_nat (n div 10) @ [48 + n mod 10])"

declare str_nat.simps [simp del]

text \<open>The lines one round of the outer loop prints: the header \<open>Cluster {cluster + 1}\<close>,
  a bullet per member, and the empty line of \<open>print()\<close>.\<close>

definition cluster_lines :: "('v \<Rightarrow> nat) \<Rightarrow> nat \<Rightarrow> 'v article list \<Rightarrow> pystr list" where
  "cluster_lines predict cluster articles =
     [py ''Cluster '' @ str_nat (cluster + 1)] @
     map (\<lambda>a. py '' - '' @ title a) (filter (in_cluster predict cluster) articles) @
     [[]]"

definition kmeans_cell ::
  "(kmeans_params \<Rightarrow> 'v list \<Rightarrow> 'e + 'm) \<Rightarrow> ('m \<Rightarrow> 'v \<Rightarrow> nat) \<Rightarrow> 'v article list
    \<Rightarrow> 'e error + pystr list" where
  "kmeans_cell fit predict articles =
     (case embeddings_of articles of
        Inl e \<Rightarrow> Inl e
      | Inr embeddings \<Rightarrow>
          (case fit notebook_kmeans embeddings of
             Inl e \<Rightarrow> Inl (External e)
           | Inr kmeans \<Rightarrow>
               Inr (concat (map (\<lambda>cluster. cluster_lines (predict kmeans) cluster articles)
                              [0..<7]))))"

section \<open>Clustering by prompt\<close>

definition cluster_system_prompt :: pystr where
  "cluster_system_prompt =
     py ''You are an expert encyclopedia editor. '' @
     py ''Your task is to read through the summaries of Wikipedia articles, '' @
     py ''and assign them to one of seven clusters. ''"

text \<open>The last four literals of the user instruction: the output format.\<close>

definition cluster_output_format :: pystr where
  "cluster_output_format =
     py ''Cluster N: Cluster Title'' @ nl @
     py '' - First Article Title'' @ nl @
     py '' - Second Article Title'' @ nl @
     py ''etc...'' @ nl @ nl @ nl"

definition cluster_user_instruction :: pystr where
  "cluster_user_instruction =
     py ''The following are titles and summaries of Wikipedia articles. '' @
     py ''Read the summaries. For each article, come up with a few tags that would '' @
     py ''describe the cluster it belongs to. '' @
     py ''Then assign the article to one of exactly 7 clusters (from Cluster 1 to Cluster 7), '' @
     py ''based on their topics. It is very important that you only assign each article to one cluster. '' @
     py ''You must have exactly 7 clusters, and each cluster must have at least two articles assigned to it. '' @
     py ''Your final output should follow the format:'' @ nl @
     cluster_output_format"

text \<open>\<open>f"Title: {article['title']}\nSummary: {article['summary']}\n\n"\<close>\<close>

definition article_entry :: "pystr \<Rightarrow> pystr \<Rightarrow> pystr" where
  "article_entry t s = py ''Title: '' @ t @ nl @ py ''Summary: '' @ s @ nl @ nl"

text \<open>The generator that \<open>join\<close> consumes: a \<open>KeyError\<close> at the first article
  without a summary, before anything is sent.\<close>

fun article_entries :: "'v article list \<Rightarrow> 'e error + pystr list" where
  "article_entries [] = Inr []"
| "article_entries (a # as) =
     (case summary a of
        None \<Rightarrow> Inl (KeyError (py ''summary''))
      | Some s \<Rightarrow>
          (case article_entries as of
             Inl e \<Rightarrow> Inl e
           | Inr es \<Rightarrow> Inr (article_entry (title a) s # es)))"

definition cluster_request_of :: "'v article list \<Rightarrow> 'e error + chat_request" where
  "cluster_request_of articles =
     (case article_entries articles of
        Inl e \<Rightarrow> Inl e
      | Inr entries \<Rightarrow>
          Inr \<lparr>chat_engine = py ''gpt-4'',
               messages =
                 [\<lparr>role = py ''system'', content = cluster_system_prompt\<rparr>,
                  \<lparr>role = py ''user'', content = cluster_user_instruction @ join nl entries\<rparr>],
               temperature = 1 / 10,
               max_tokens = None\<rparr>)"

text \<open>
  What the cell leaves in the variable \<open>clusters\<close> is a Python object; the objects that
  matter here are strings, integers, lists and dictionaries (a dictionary as its items).
\<close>

datatype pyobj = PyStr pystr | PyInt int | PyList "pyobj list" | PyDict "(pyobj \<times> pyobj) list"

text \<open>
  \<open>completion = create(...); clusters = completion['choices'][0]['message']["content"];
  print(clusters)\<close>. The result is the object bound to \<open>clusters\<close>, which is also what
  is printed; nothing else is done with the reply.
\<close>

definition llm_cluster ::
  "('p, 'e) chat_api \<Rightarrow> 'p \<Rightarrow> 'v article list \<Rightarrow> ('e error + pyobj) \<times> 'p" where
  "llm_cluster api p articles =
     (case cluster_request_of articles of
        Inl e \<Rightarrow> (Inl e, p)
      | Inr request \<Rightarrow>
          (case api p request of
             (Inl e, p') \<Rightarrow> (Inl (External e), p')
           | (Inr [], p') \<Rightarrow> (Inl IndexError, p')
           | (Inr (clusters # _), p') \<Rightarrow> (Inr (PyStr clusters), p')))"

section \<open>Predicates and sample inputs used in the statements\<close>

definition has_summary :: "'v article \<Rightarrow> bool" where
  "has_summary a = (summary a \<noteq> None)"

text \<open>The article has an embedding, and the fitted model labels it with a cluster of
  \<open>range(K)\<close>.\<close>

definition labelled_below :: "('v \<Rightarrow> nat) \<Rightarrow> nat \<Rightarrow> 'v article \<Rightarrow> bool" where
  "labelled_below predict K a =
     (case embedding a of Some v \<Rightarrow> predict v < K | None \<Rightarrow> False)"

definition doc :: "string \<Rightarrow> string \<Rightarrow> rat list article" where
  "doc t x = \<lparr>title = py t, atext = py x, embedding = None, summary = None\<rparr>"

definition plain_documents :: "rat list article list" where
  "plain_documents =
     [doc ''Doc A'' ''Text of A'', doc ''Doc B'' ''Text of B'', doc ''Doc C'' ''Text of C'']"

definition embedded_documents :: "rat list article list" where
  "embedded_documents =
     [(doc ''Doc A'' ''Text of A'')\<lparr>embedding := Some [0]\<rparr>,
      (doc ''Doc B'' ''Text of B'')\<lparr>embedding := Some [1]\<rparr>,
      (doc ''Doc C'' ''Text of C'')\<lparr>embedding := Some [5]\<rparr>]"

definition sample_documents :: "rat list article list" where
  "sample_documents =
     [(doc ''Doc A'' ''Text of A'')\<lparr>summary := Some (py ''About A'')\<rparr>,
      (doc ''Doc B'' ''Text of B'')\<lparr>summary := Some (py ''About B'')\<rparr>,
      (doc ''Doc C'' ''Text of C'')\<lparr>summary := Some (py ''About C'')\<rparr>]"

text \<open>One page fetched over and over: the same text, hence the same embedding vector.\<close>

definition twin :: "rat list article" where
  "twin = (doc ''Same page'' ''Same text'')\<lparr>embedding := Some [1 / 2, 1 / 4]\<rparr>"

text \<open>A labelling of vectors with two labels.\<close>

definition nearest_of_two :: "rat list \<Rightarrow> nat" where
  "nearest_of_two v = (if v = [0] then 0 else 1)"

text \<open>Providers that count their calls and raise on the second one.\<close>

definition flaky_embedding :: "(nat, string, rat list) embedding_api" where
  "flaky_embedding n request = (if n = 1 then Inl ''rate limit'' else Inr [[1 / 2]], Suc n)"

definition flaky_chat :: "(nat, string) chat_api" where
  "flaky_chat n request = (if n = 1 then Inl ''rate limit'' else Inr [py ''A summary''], Suc n)"

text \<open>A chat provider that answers every request with the one choice \<open>c\<close>.\<close>

definition reply_with :: "pystr \<Rightarrow> (unit, string) chat_api" where
  "reply_with c = (\<lambda>p request. (Inr [c], p))"

definition sample_response :: pystr where
  "sample_response =
     py ''Cluster 1: Test'' @ nl @ py '' - Doc A'' @ nl @ py '' - Doc B'' @ nl @ nl @
     py ''Cluster 2: Other'' @ nl @ py '' - Doc C'' @ nl"

text \<open>A reply that lists \<open>Doc Z\<close>, which is no title of \<open>sample_documents\<close>.\<close>

definition unknown_title_response :: pystr where
  "unknown_title_response =
     py ''Cluster 1: Test'' @ nl @ py '' - Doc A'' @ nl @ py '' - Doc Z'' @ nl @ nl @
     py ''Cluster 2: Other'' @ nl @ py '' - Doc B'' @ nl @ py '' - Doc C'' @ nl"

text \<open>A reply with six clusters where the prompt asks for seven; \<open>Doc A\<close> and
  \<open>Doc B\<close> stand in three clusters each and \<open>Doc C\<close> in none.\<close>

definition six_cluster_response :: pystr where
  "six_cluster_response =
     py ''Cluster 1: One'' @ nl @ py '' - Doc A'' @ nl @ nl @
     py ''Cluster 2: Two'' @ nl @ py '' - Doc A'' @ nl @ nl @
     py ''Cluster 3: Three'' @ nl @ py '' - Doc B'' @ nl @ nl @
     py ''Cluster 4: Four'' @ nl @ py '' - Doc B'' @ nl @ nl @
     py ''Cluster 5: Five'' @ nl @ py '' - Doc A'' @ nl @ nl @
     py ''Cluster 6: Six'' @ nl @ py '' - Doc B'' @ nl"

section \<open>The per-document loops\<close>

subsection \<open>What the loops leave alone\<close>

lemma embed_articles_frame:
  "embed_articles api p as = (r, as', p') \<Longrightarrow>
     map title as' = map title as \<and> map atext as' = map atext as \<and>
     map summary as' = map summary as \<and> length as' = length as"
proof (induction as arbitrary: p r as' p')
  case Nil
  then show ?case by simp
next
  case (Cons a as)
  then show ?case
    by (fastforce split: prod.splits sum.splits list.splits)
qed

lemma summarize_articles_frame:
  "summarize_articles api p as = (r, as', p') \<Longrightarrow>
     map title as' = map title as \<and> map atext as' = map atext as \<and>
     map embedding as' = map embedding as \<and> length as' = length as"
proof (induction as arbitrary: p r as' p')
  case Nil
  then show ?case by simp
next
  case (Cons a as)
  then show ?case
    by (fastforce split: prod.splits sum.splits list.splits)
qed

lemma fetch_articles_prefix:
  "fetch_articles get n w as = (r, as', w') \<Longrightarrow> prefix as as'"
proof (induction n arbitrary: w as)
  case 0
  then show ?case by simp
next
  case (Suc n)
  then show ?case
    by (auto split: prod.splits sum.splits dest: append_prefixD)
qed

lemma fetch_articles_length:
  "fetch_articles get n w as = (None, as', w') \<Longrightarrow> length as' = length as + n"
proof (induction n arbitrary: w as)
  case 0
  then show ?case by simp
next
  case (Suc n)
  then show ?case
    by (fastforce split: prod.splits sum.splits)
qed

text \<open>
  C10. The embedding loop and the summarization loop change nothing but the
  \<open>embedding\<close>, respectively the \<open>summary\<close>, of an article: whether they finish or
  stop at an exception, the list they leave has the same titles and the same texts in the
  same order, hence the same length; the embedding loop keeps every summary and the
  summarization loop every embedding. This holds for the summarization loop run on what
  the embedding loop left (\<open>as2\<close>). The fetch loop only appends: the list it starts
  from is a prefix of the list it leaves.
\<close>

theorem loops_only_add_fields:
  "(let as1 = fst (snd (embed_articles ea p as));
        as2 = fst (snd (summarize_articles ca q as1))
    in map title as1 = map title as \<and> map atext as1 = map atext as \<and>
       map summary as1 = map summary as \<and> length as1 = length as \<and>
       map title as2 = map title as \<and> map atext as2 = map atext as \<and>
       map embedding as2 = map embedding as1 \<and> length as2 = length as) \<and>
   prefix as (fst (snd (fetch_articles get n w as)))"
proof -
  obtain r1 as1 p1 where e: "embed_articles ea p as = (r1, as1, p1)"
    by (metis prod_cases3)
  obtain r2 as2 q2 where s: "summarize_articles ca q as1 = (r2, as2, q2)"
    by (metis prod_cases3)
  obtain r3 as3 w3 where f: "fetch_articles get n w as = (r3, as3, w3)"
    by (metis prod_cases3)
  from embed_articles_frame[OF e] summarize_articles_frame[OF s] fetch_articles_prefix[OF f]
  show ?thesis by (simp add: e s f)
qed

subsection \<open>An exception ends the loop\<close>

lemma embed_articles_append:
  "embed_articles api p (xs @ ys) =
     (case embed_articles api p xs of
        (Some e, xs', p') \<Rightarrow> (Some e, xs' @ ys, p')
      | (None, xs', p') \<Rightarrow>
          (case embed_articles api p' ys of (r, ys', p'') \<Rightarrow> (r, xs' @ ys', p'')))"
proof (induction xs arbitrary: p)
  case Nil
  then show ?case by (simp split: prod.splits)
next
  case (Cons a xs)
  then show ?case
    by (simp split: prod.splits sum.splits list.splits option.splits)
qed

lemma summarize_articles_append:
  "summarize_articles api p (xs @ ys) =
     (case summarize_articles api p xs of
        (Some e, xs', p') \<Rightarrow> (Some e, xs' @ ys, p')
      | (None, xs', p') \<Rightarrow>
          (case summarize_articles api p' ys of (r, ys', p'') \<Rightarrow> (r, xs' @ ys', p'')))"
proof (induction xs arbitrary: p)
  case Nil
  then show ?case by (simp split: prod.splits)
next
  case (Cons a xs)
  then show ?case
    by (simp split: prod.splits sum.splits list.splits option.splits)
qed

text \<open>
  C9. In the embedding loop and in the summarization loop, one failed provider call stops
  the whole batch. If the loop has handled the first \<open>k\<close> articles without an exception
  (leaving them as \<open>handled\<close>) and the call for article \<open>k\<close> raises \<open>e\<close>, then
  the loop ends with that exception; the article \<open>k\<close> and all the articles after it
  are left exactly as they were (\<open>drop k as\<close>: no embedding or summary is stored for
  them), and the provider is left in the state right after the failed call, so no call
  was made for a later article.
\<close>

theorem failure_halts_batch:
  "(k < length as \<and> embed_articles ea p (take k as) = (None, handled, p1) \<and>
      ea p1 (embedding_request_of (as ! k)) = (Inl e, p2)
      \<longrightarrow> embed_articles ea p as = (Some (External e), handled @ drop k as, p2)) \<and>
   (j < length bs \<and> summarize_articles ca q (take j bs) = (None, handled', q1) \<and>
      ca q1 (summary_request_of (bs ! j)) = (Inl e', q2)
      \<longrightarrow> summarize_articles ca q bs = (Some (External e'), handled' @ drop j bs, q2))"
proof (intro conjI impI)
  assume h: "k < length as \<and> embed_articles ea p (take k as) = (None, handled, p1) \<and>
      ea p1 (embedding_request_of (as ! k)) = (Inl e, p2)"
  then have split: "as = take k as @ as ! k # drop (Suc k) as"
    by (simp add: id_take_nth_drop)
  have "embed_articles ea p (take k as @ as ! k # drop (Suc k) as) =
          (Some (External e), handled @ as ! k # drop (Suc k) as, p2)"
    using h by (simp add: embed_articles_append)
  with h show "embed_articles ea p as = (Some (External e), handled @ drop k as, p2)"
    using split by (simp add: Cons_nth_drop_Suc)
next
  assume h: "j < length bs \<and> summarize_articles ca q (take j bs) = (None, handled', q1) \<and>
      ca q1 (summary_request_of (bs ! j)) = (Inl e', q2)"
  then have split: "bs = take j bs @ bs ! j # drop (Suc j) bs"
    by (simp add: id_take_nth_drop)
  have "summarize_articles ca q (take j bs @ bs ! j # drop (Suc j) bs) =
          (Some (External e'), handled' @ bs ! j # drop (Suc j) bs, q2)"
    using h by (simp add: summarize_articles_append)
  with h show "summarize_articles ca q bs = (Some (External e'), handled' @ drop j bs, q2)"
    using split by (simp add: Cons_nth_drop_Suc)
qed

text \<open>
  C9 at three documents and providers that raise on their second call: the first document
  gets its embedding (its summary), the loop ends with the exception, the second and the
  third document are untouched, and the provider has been called twice.
\<close>

theorem failure_halts_batch_witness:
  "embed_articles flaky_embedding 0 plain_documents =
     (Some (External ''rate limit''),
      [(doc ''Doc A'' ''Text of A'')\<lparr>embedding := Some [1 / 2]\<rparr>,
       doc ''Doc B'' ''Text of B'', doc ''Doc C'' ''Text of C''], 2) \<and>
   summarize_articles flaky_chat 0 plain_documents =
     (Some (External ''rate limit''),
      [(doc ''Doc A'' ''Text of A'')\<lparr>summary := Some (py ''A summary'')\<rparr>,
       doc ''Doc B'' ''Text of B'', doc ''Doc C'' ''Text of C''], 2)"
proof -
  have e1: "embed_articles flaky_embedding 0 (take 1 plain_documents) =
          (None, [(doc ''Doc A'' ''Text of A'')\<lparr>embedding := Some [1 / 2]\<rparr>], 1)"
    by (simp add: plain_documents_def flaky_embedding_def)
  have e2: "flaky_embedding 1 (embedding_request_of (plain_documents ! 1)) =
          (Inl ''rate limit'', 2)"
    by (simp add: flaky_embedding_def)
  have s1: "summarize_articles flaky_chat 0 (take 1 plain_documents) =
          (None, [(doc ''Doc A'' ''Text of A'')\<lparr>summary := Some (py ''A summary'')\<rparr>], 1)"
    by (simp add: plain_documents_def flaky_chat_def)
  have s2: "flaky_chat 1 (summary_request_of (plain_documents ! 1)) = (Inl ''rate limit'', 2)"
    by (simp add: flaky_chat_def)
  have len: "1 < length plain_documents"
    by (simp add: plain_documents_def)
  from failure_halts_batch[where k = 1 and as = plain_documents and ea = flaky_embedding
      and p = 0 and ?p1.0 = 1 and ?p2.0 = 2 and e = "''rate limit''"
      and handled = "[(doc ''Doc A'' ''Text of A'')\<lparr>embedding := Some [1 / 2]\<rparr>]"
      and j = 1 and bs = plain_documents and ca = flaky_chat
      and q = 0 and ?q1.0 = 1 and ?q2.0 = 2 and e' = "''rate limit''"
      and handled' = "[(doc ''Doc A'' ''Text of A'')\<lparr>summary := Some (py ''A summary'')\<rparr>]"]
    e1 e2 s1 s2 len
  show ?thesis
    by (simp add: plain_documents_def)
qed

subsection \<open>The requests the loops send\<close>



lemma embedding_input_is_prefix:
  "\<exists>t. emb_input (embedding_request_of a) = [t] \<and> prefix t (atext a) \<and>
       length t = min 5555 (length (atext a))"
  by (simp add: embedding_request_of_def take_is_prefix min.commute)

lemma summary_input_is_prefix:
  "\<exists>t. content (last (messages (summary_request_of a))) =
         py ''Read the following article and write a short summary of it.'' @
         nl @ nl @ py ''Title:'' @ nl @ title a @ nl @ py ''Article:'' @ nl @ t \<and>
       prefix t (atext a) \<and> length t = min 9999 (length (atext a))"
  by (simp add: summary_request_of_def summary_user_prompt_def take_is_prefix min.commute)




section \<open>The groups of the k-means cell\<close>

lemma kmeans_cell_prints_groups:
  fixes fit :: "kmeans_params \<Rightarrow> 'v list \<Rightarrow> 'e + 'm"
  assumes "kmeans_cell fit predict articles = Inr printed"
  shows "\<exists>embeddings kmeans.
           (embeddings_of articles :: 'e error + 'v list) = Inr embeddings \<and>
           fit notebook_kmeans embeddings = Inr kmeans \<and>
           printed =
             concat (map2 (\<lambda>cluster members.
                        [py ''Cluster '' @ str_nat (cluster + 1)] @
                        map (\<lambda>a. py '' - '' @ title a) members @ [[]])
                      [0..<7] (cluster_groups (predict kmeans) 7 articles))"
proof -
  from assms obtain embeddings kmeans where
    e: "(embeddings_of articles :: 'e error + 'v list) = Inr embeddings" and
    f: "fit notebook_kmeans embeddings = Inr kmeans" and
    p: "printed = concat (map (\<lambda>cluster. cluster_lines (predict kmeans) cluster articles) [0..<7])"
    by (auto simp: kmeans_cell_def split: sum.splits)
  have "map2 (\<lambda>cluster members.
                        [py ''Cluster '' @ str_nat (cluster + 1)] @
                        map (\<lambda>a. py '' - '' @ title a) members @ [[]])
                      [0..<7] (cluster_groups (predict kmeans) 7 articles) =
        map (\<lambda>cluster. cluster_lines (predict kmeans) cluster articles) [0..<7]"
    unfolding cluster_groups_def cluster_lines_def
    by (simp only: zip_map2 zip_same_conv_map map_map) (simp add: comp_def)
  with e f p show ?thesis by simp
qed

lemma embeddings_of_labelled:
  "embeddings_of articles = Inr embeddings \<Longrightarrow> list_all (\<lambda>v. predict v < K) embeddings \<Longrightarrow>
     list_all (labelled_below predict K) articles"
  by (induction articles arbitrary: embeddings)
     (auto simp: labelled_below_def split: option.splits sum.splits)

lemma mset_filter_split:
  "mset (filter (\<lambda>a. \<exists>c<K. in_cluster f c a) xs) + mset (filter (in_cluster f K) xs) =
   mset (filter (\<lambda>a. \<exists>c<Suc K. in_cluster f c a) xs)"
  by (induction xs) (auto simp: in_cluster_def less_Suc_eq split: option.splits)

lemma mset_concat_cluster_groups:
  "mset (concat (cluster_groups f K xs)) = mset (filter (\<lambda>a. \<exists>c<K. in_cluster f c a) xs)"
proof (induction K)
  case 0
  then show ?case by (simp add: cluster_groups_def)
next
  case (Suc K)
  then show ?case
    using mset_filter_split[of K f xs] by (simp add: cluster_groups_def)
qed

text \<open>
  C1, as the code has it. When every article has an embedding and the fitted model labels
  every one of them with a cluster of \<open>range(K)\<close>, the loop over \<open>range(K)\<close> walks
  through exactly \<open>K\<close> groups; the groups together hold every article exactly as often
  as the list does (none left out, none twice), and two different groups share no
  article. Nothing is said about a group being non-empty: see
  \<open>duplicate_vectors_leave_cluster_empty\<close>.
\<close>

theorem groups_partition_articles:
  assumes "list_all (labelled_below predict K) articles"
  shows "length (cluster_groups predict K articles) = K \<and>
         mset (concat (cluster_groups predict K articles)) = mset articles \<and>
         (\<forall>c<K. \<forall>c'<K. c \<noteq> c' \<longrightarrow>
            set (cluster_groups predict K articles ! c) \<inter>
            set (cluster_groups predict K articles ! c') = {})"
proof (intro conjI allI impI)
  show "length (cluster_groups predict K articles) = K"
    by (simp add: cluster_groups_def)
  have "filter (\<lambda>a. \<exists>c<K. in_cluster predict c a) articles = articles"
    using assms
    by (auto simp: list_all_iff labelled_below_def in_cluster_def filter_id_conv
        split: option.splits)
  then show "mset (concat (cluster_groups predict K articles)) = mset articles"
    by (simp add: mset_concat_cluster_groups)
next
  fix c c' assume "c < K" "c' < K" "c \<noteq> c'"
  then show "set (cluster_groups predict K articles ! c) \<inter>
            set (cluster_groups predict K articles ! c') = {}"
    by (auto simp: cluster_groups_def in_cluster_def split: option.splits)
qed

text \<open>
  C1 at three documents with the embeddings \<open>[0]\<close>, \<open>[1]\<close>, \<open>[5]\<close> and two
  clusters: the first group is the first document, the second group the other two.
\<close>

theorem groups_partition_articles_witness:
  "list_all (labelled_below nearest_of_two 2) embedded_documents \<and>
   cluster_groups nearest_of_two 2 embedded_documents =
     [[(doc ''Doc A'' ''Text of A'')\<lparr>embedding := Some [0]\<rparr>],
      [(doc ''Doc B'' ''Text of B'')\<lparr>embedding := Some [1]\<rparr>,
       (doc ''Doc C'' ''Text of C'')\<lparr>embedding := Some [5]\<rparr>]] \<and>
   length (cluster_groups nearest_of_two 2 embedded_documents) = 2 \<and>
   mset (concat (cluster_groups nearest_of_two 2 embedded_documents)) = mset embedded_documents"
proof -
  have h: "list_all (labelled_below nearest_of_two 2) embedded_documents"
    by (simp add: embedded_documents_def labelled_below_def nearest_of_two_def doc_def)
  have g: "cluster_groups nearest_of_two 2 embedded_documents =
     [[(doc ''Doc A'' ''Text of A'')\<lparr>embedding := Some [0]\<rparr>],
      [(doc ''Doc B'' ''Text of B'')\<lparr>embedding := Some [1]\<rparr>,
       (doc ''Doc C'' ''Text of C'')\<lparr>embedding := Some [5]\<rparr>]]"
    by (simp add: cluster_groups_def in_cluster_def embedded_documents_def nearest_of_two_def
        doc_def upt_rec)
  from groups_partition_articles[OF h] h g show ?thesis
    by blast
qed

text \<open>
  C1 as stated fails where it promises \<open>K\<close> non-empty clusters for every \<open>K \<le> N\<close>.
  The label of an article is a function of its embedding vector alone
  (\<open>kmeans.predict([article["embedding"]])[0]\<close>), so articles with the same vector
  share a cluster. With \<open>N = 23\<close> articles that all carry one vector and \<open>K = 7\<close>,
  whatever the fitted model is, not all seven groups are non-empty.
\<close>

theorem duplicate_vectors_leave_cluster_empty:
  "1 \<le> (7::nat) \<and> 7 \<le> length (replicate 23 twin) \<and>
   (\<forall>predict. \<not> list_all (\<lambda>g. g \<noteq> []) (cluster_groups predict 7 (replicate 23 twin)))"
proof (intro conjI allI)
  fix predict :: "rat list \<Rightarrow> nat"
  show "\<not> list_all (\<lambda>g. g \<noteq> []) (cluster_groups predict 7 (replicate 23 twin))"
  proof
    assume all: "list_all (\<lambda>g. g \<noteq> []) (cluster_groups predict 7 (replicate 23 twin))"
    have len: "length (cluster_groups predict 7 (replicate 23 twin)) = 7"
      by (simp add: cluster_groups_def)
    from all len have "cluster_groups predict 7 (replicate 23 twin) ! 0 \<noteq> []"
      and "cluster_groups predict 7 (replicate 23 twin) ! 1 \<noteq> []"
      by (simp_all add: list_all_length)
    then have "in_cluster predict 0 twin" and "in_cluster predict 1 twin"
      by (auto simp: cluster_groups_def filter_empty_conv)
    then show False
      by (simp add: in_cluster_def twin_def)
  qed
qed simp_all

section \<open>The clustering prompt and its reply\<close>

lemma article_entries_eq:
  "(article_entries as :: 'e error + pystr list) =
     (if list_all has_summary as
      then Inr (map (\<lambda>a. article_entry (title a) (the (summary a))) as)
      else Inl (KeyError (py ''summary'')))"
  by (induction as) (auto simp: has_summary_def split: option.splits)










subsection \<open>The reply is kept as text\<close>

text \<open>
  The notebook has no parser for the reply: \<open>llm_cluster\<close> binds the content of the
  first choice to \<open>clusters\<close> and prints it. What the specification says of a
  response parser (C4, C5, C6) is compared with that.
\<close>

text \<open>
  C4 as stated fails. For the sample reply
  \<open>"Cluster 1: Test\n - Doc A\n - Doc B\n\nCluster 2: Other\n - Doc C\n"\<close> and the
  documents \<open>Doc A\<close>, \<open>Doc B\<close>, \<open>Doc C\<close>, what the cell yields is not the
  dictionary \<open>{1: {label: "Test", members: ["Doc A", "Doc B"]}, 2: {label: "Other",
  members: ["Doc C"]}}\<close>.
\<close>

theorem sample_response_not_parsed:
  "fst (llm_cluster (reply_with sample_response) () sample_documents) \<noteq>
     Inr (PyDict
       [(PyInt 1, PyDict [(PyStr (py ''label''), PyStr (py ''Test'')),
                          (PyStr (py ''members''),
                           PyList [PyStr (py ''Doc A''), PyStr (py ''Doc B'')])]),
        (PyInt 2, PyDict [(PyStr (py ''label''), PyStr (py ''Other'')),
                          (PyStr (py ''members''), PyList [PyStr (py ''Doc C'')])])])"
  by (simp add: llm_cluster_def cluster_request_of_def article_entries_eq reply_with_def
      split: sum.splits)

text \<open>
  C4, as the code has it. Given the sample reply, the cell yields the reply itself, as
  the string it arrived as: no header line and no bullet line is recognised. This holds
  for every list of articles that have their summaries; if one has none, the cell ends
  with the \<open>KeyError\<close> before anything is sent.
\<close>

theorem sample_response_kept_as_text:
  "fst (llm_cluster (reply_with sample_response) p articles) =
     (if list_all has_summary articles then Inr (PyStr sample_response)
      else Inl (KeyError (py ''summary'')))"
  by (simp add: llm_cluster_def cluster_request_of_def article_entries_eq reply_with_def)

text \<open>
  C5 as stated fails. The reply \<open>unknown_title_response\<close> has the bullet line
  \<open>- Doc Z\<close>, and no input document has that title. The cell raises nothing and
  excludes nothing: it yields the whole reply, the line \<open>- Doc Z\<close> included.
\<close>

theorem unknown_title_passes_through:
  "fst (llm_cluster (reply_with unknown_title_response) () sample_documents) =
     Inr (PyStr unknown_title_response)"
  by (simp add: llm_cluster_def cluster_request_of_def article_entries_eq reply_with_def
      sample_documents_def has_summary_def doc_def)

text \<open>
  C5, as the code has it. Whatever the bullet lines of a reply are, and whatever the
  titles of the input documents are: when the request could be built and the provider
  answers with at least one choice, the cell yields the content of the first choice
  unchanged, and no exception is raised. Titles are not matched against the input.
\<close>

theorem reply_returned_verbatim:
  fixes api :: "('p, 'e) chat_api"
  assumes "(cluster_request_of articles :: 'e error + chat_request) = Inr request"
    and "api p request = (Inr (c # cs), p')"
  shows "llm_cluster api p articles = (Inr (PyStr c), p')"
  using assms by (simp add: llm_cluster_def)

text \<open>C5 at the sample documents and the reply that lists \<open>Doc Z\<close>.\<close>

theorem reply_returned_verbatim_witness:
  "llm_cluster (reply_with unknown_title_response) () sample_documents =
     (Inr (PyStr unknown_title_response), ())"
proof -
  obtain request :: chat_request where
    r: "(cluster_request_of sample_documents :: string error + chat_request) = Inr request"
    by (simp add: cluster_request_of_def article_entries_eq sample_documents_def
        has_summary_def doc_def)
  have "reply_with unknown_title_response () request = (Inr (unknown_title_response # []), ())"
    by (simp add: reply_with_def)
  from reply_returned_verbatim[where api = "reply_with unknown_title_response" and p = "()"
      and articles = sample_documents and request = request and c = unknown_title_response
      and cs = "[]" and p' = "()", OF r this]
  show ?thesis .
qed

text \<open>
  C6 as stated fails. The reply \<open>six_cluster_response\<close> lists six clusters where
  seven are asked for, lists \<open>Doc A\<close> and \<open>Doc B\<close> in three clusters each and
  \<open>Doc C\<close> in none. The cell raises nothing: it yields the reply.
\<close>

theorem six_clusters_accepted:
  "fst (llm_cluster (reply_with six_cluster_response) () sample_documents) =
     Inr (PyStr six_cluster_response)"
  by (simp add: llm_cluster_def cluster_request_of_def article_entries_eq reply_with_def
      sample_documents_def has_summary_def doc_def)

text \<open>
  C6, as the code has it. No reply text makes the cell raise: whatever a reply lists
  (fewer clusters than asked for, a title in no cluster or in several), when the request
  could be built and the reply has a first choice, the cell raises nothing and yields the
  content of that choice unchanged. A reply is the list of the contents of its choices.
\<close>

theorem reply_text_never_raises:
  fixes api :: "('p, 'e) chat_api"
  assumes "(cluster_request_of articles :: 'e error + chat_request) = Inr request"
    and "fst (api p request) = Inr (c # cs)"
  shows "\<not> isl (fst (llm_cluster api p articles)) \<and>
         fst (llm_cluster api p articles) = Inr (PyStr c)"
proof -
  obtain p' where "api p request = (Inr (c # cs), p')"
    using assms(2) by (cases "api p request") simp
  with assms(1) have "llm_cluster api p articles = (Inr (PyStr c), p')"
    by (simp add: llm_cluster_def)
  then show ?thesis by simp
qed

text \<open>C6 at the sample documents and the reply with six clusters.\<close>

theorem reply_text_never_raises_witness:
  "\<not> isl (fst (llm_cluster (reply_with six_cluster_response) () sample_documents)) \<and>
   fst (llm_cluster (reply_with six_cluster_response) () sample_documents) =
     Inr (PyStr six_cluster_response)"
proof -
  obtain request :: chat_request where
    r: "(cluster_request_of sample_documents :: string error + chat_request) = Inr request"
    by (simp add: cluster_request_of_def article_entries_eq sample_documents_def
        has_summary_def doc_def)
  have "fst (reply_with six_cluster_response () request) = Inr (six_cluster_response # [])"
    by (simp add: reply_with_def)
  from reply_text_never_raises[where api = "reply_with six_cluster_response" and p = "()"
      and articles = sample_documents and request = request and c = six_cluster_response
      and cs = "[]", OF r this]
  show ?thesis .
qed

end
